theory Spec2Isabelle
  imports Complex_Main
begin

section \<open>JavaScript numbers\<close>

text \<open>
  A JavaScript number is an IEEE 754 double. It is modelled by its exact value, a
  rational, and every arithmetic result is rounded to the nearest double, ties to the even
  significand, as the hardware does: \<open>round_double\<close> keeps 53 significant bits (fewer
  below \<open>2 ^ - 1022\<close>, where the spacing stays \<open>2 ^ - 1074\<close>). Overflow to \<^verbatim>\<open>Infinity\<close> is not
  modelled; the numbers of this program stay far below \<open>2 ^ 1024\<close>.
\<close>

function bit_length :: "int \<Rightarrow> int" where
  "bit_length n = (if n \<le> 0 then 0 else 1 + bit_length (n div 2))"
  by pat_completeness auto
termination
  by (relation "measure nat") auto

definition pow2 :: "int \<Rightarrow> rat" where
  "pow2 e = (if 0 \<le> e then 2 ^ nat e else 1 / 2 ^ nat (- e))"

text \<open>The exponent of a positive number: \<open>pow2 (ilog2 a) \<le> a < pow2 (ilog2 a + 1)\<close>.\<close>

definition ilog2 :: "rat \<Rightarrow> int" where
  "ilog2 a = (if 1 \<le> a then bit_length \<lfloor>a\<rfloor> - 1 else - bit_length (\<lceil>1 / a\<rceil> - 1))"

definition round_half_even :: "rat \<Rightarrow> int" where
  "round_half_even y =
     (let f = \<lfloor>y\<rfloor>; d = y - of_int f
      in if d < 1 / 2 then f else if 1 / 2 < d then f + 1 else if even f then f else f + 1)"

definition round_double :: "rat \<Rightarrow> rat" where
  "round_double x =
     (if x = 0 then 0
      else (let a = \<bar>x\<bar>;
                e = max (ilog2 a - 52) (- 1074);
                m = round_half_even (a / pow2 e)
            in sgn x * of_int m * pow2 e))"

text \<open>The operators \<^verbatim>\<open>+\<close>, \<^verbatim>\<open>/\<close> and \<^verbatim>\<open>*\<close> on numbers (the divisor is never \<open>0\<close> where the program divides).\<close>

definition js_add :: "rat \<Rightarrow> rat \<Rightarrow> rat" where
  "js_add x y = round_double (x + y)"

definition js_div :: "rat \<Rightarrow> rat \<Rightarrow> rat" where
  "js_div x y = round_double (x / y)"

definition js_mul :: "rat \<Rightarrow> rat \<Rightarrow> rat" where
  "js_mul x y = round_double (x * y)"

text \<open>\<^verbatim>\<open>+\<close> on numbers that hold integers, such as the usage counters.\<close>

definition js_plus :: "int \<Rightarrow> int \<Rightarrow> int" where
  "js_plus n k = \<lfloor>js_add (of_int n) (of_int k)\<rfloor>"

text \<open>
  \<^verbatim>\<open>x.toFixed(1)\<close> is the decimal with one fraction digit nearest to the exact value of \<open>x\<close>,
  the larger one of two equally near (for a negative \<open>x\<close>, the sign is put before the result
  for \<open>- x\<close>); \<^verbatim>\<open>parseFloat\<close> reads that decimal back as the nearest double.
\<close>

definition toFixed1 :: "rat \<Rightarrow> rat" where
  "toFixed1 x =
     (if x < 0 then - (of_int \<lfloor>(- x) * 10 + 1 / 2\<rfloor> / 10) else of_int \<lfloor>x * 10 + 1 / 2\<rfloor> / 10)"

definition parseFloat :: "rat \<Rightarrow> rat" where
  "parseFloat x = round_double x"

section \<open>Usage documents and JavaScript values\<close>

text \<open>
  A usage document is the JavaScript object stored under \<^verbatim>\<open>usage_limits/main_tracker\<close>.
  Every field may be missing (\<open>None\<close> is JavaScript's \<^verbatim>\<open>undefined\<close>): the webhook creates
  a document that holds only \<^verbatim>\<open>isSubscribed\<close> and \<^verbatim>\<open>stripeCustomerId\<close>. The counters are
  numbers that hold integers. The customer identifier is what Stripe sends in
  \<^verbatim>\<open>session.customer\<close>: a string or \<^verbatim>\<open>null\<close>. A field that is present holds a value of its
  type; the three writers of the program (the initial document, the counter transaction on
  a counter key, the webhook's merge) keep it so.
\<close>

datatype 'a nullable = Null | Val 'a

record usage_doc =
  initiatorChecks :: "int option"
  bidderChecks :: "int option"
  isSubscribed :: "bool option"
  stripeCustomerId :: "string nullable option"

text \<open>The two counter keys that \<^verbatim>\<open>roleKey\<close> ranges over: \<^verbatim>\<open>'initiatorChecks'\<close> and \<^verbatim>\<open>'bidderChecks'\<close>.\<close>

datatype roleKey = InitiatorChecks | BidderChecks

text \<open>\<^verbatim>\<open>currentData[roleKey]\<close> as a read and as an assignment.\<close>

fun get_counter :: "usage_doc \<Rightarrow> roleKey \<Rightarrow> int option" where
  "get_counter d InitiatorChecks = initiatorChecks d"
| "get_counter d BidderChecks = bidderChecks d"

fun set_counter :: "roleKey \<Rightarrow> int \<Rightarrow> usage_doc \<Rightarrow> usage_doc" where
  "set_counter InitiatorChecks n d = d\<lparr>initiatorChecks := Some n\<rparr>"
| "set_counter BidderChecks n d = d\<lparr>bidderChecks := Some n\<rparr>"

text \<open>\<^verbatim>\<open>v || 0\<close> on a number that may be missing: \<^verbatim>\<open>undefined\<close> and \<^verbatim>\<open>0\<close> are falsy.\<close>

definition or_zero :: "'a::zero option \<Rightarrow> 'a" where
  "or_zero v = (case v of None \<Rightarrow> 0 | Some n \<Rightarrow> if n = 0 then 0 else n)"

text \<open>\<^verbatim>\<open>v || false\<close> on a boolean that may be missing.\<close>

definition or_false :: "bool option \<Rightarrow> bool" where
  "or_false v = (case v of None \<Rightarrow> False | Some b \<Rightarrow> if b then b else False)"

text \<open>Truthiness of a boolean field that may be missing, as \<^verbatim>\<open>!v\<close> reads it.\<close>

definition truthy_bool :: "bool option \<Rightarrow> bool" where
  "truthy_bool v = (case v of None \<Rightarrow> False | Some b \<Rightarrow> b)"

text \<open>\<^verbatim>\<open>!v\<close> on a string that may be undefined: \<^verbatim>\<open>undefined\<close> and \<^verbatim>\<open>''\<close> are falsy.\<close>

definition falsy_str :: "string option \<Rightarrow> bool" where
  "falsy_str v = (case v of None \<Rightarrow> True | Some s \<Rightarrow> s = [])"

text \<open>\<^verbatim>\<open>v >= n\<close>: \<^verbatim>\<open>undefined\<close> converts to NaN, and every comparison with NaN is false.\<close>

definition js_ge :: "int option \<Rightarrow> int \<Rightarrow> bool" where
  "js_ge v n = (case v of None \<Rightarrow> False | Some m \<Rightarrow> n \<le> m)"

section \<open>Firestore paths\<close>

text \<open>
  A document or collection is named by the segments of its path. Both Firestore clients
  refuse a path argument that is empty or holds \<^verbatim>\<open>//\<close>, split it at \<^verbatim>\<open>/\<close>, drop empty
  segments (a slash at either end), and want an even number of segments for a document and
  an odd number for a collection. A refused argument makes the call throw.
\<close>

type_synonym path = "string list"

type_synonym firestore = "path \<rightharpoonup> usage_doc"

text \<open>
  Errors thrown by the libraries, and the message of an error: a text that the program or
  a service gives, or the message of a library error.
\<close>

datatype lib_error = Invalid_path | No_firebase_app | No_api_key

datatype message = Lit string | Lib lib_error

fun has_double_slash :: "string \<Rightarrow> bool" where
  "has_double_slash (c # d # cs) \<longleftrightarrow> (c = CHR ''/'' \<and> d = CHR ''/'') \<or> has_double_slash (d # cs)"
| "has_double_slash cs \<longleftrightarrow> False"

fun split_slash :: "string \<Rightarrow> string list" where
  "split_slash [] = [[]]"
| "split_slash (c # cs) =
     (if c = CHR ''/'' then [] # split_slash cs
      else (case split_slash cs of [] \<Rightarrow> [[c]] | s # ss \<Rightarrow> (c # s) # ss))"

definition segments :: "string \<Rightarrow> string list" where
  "segments p = filter (\<lambda>s. s \<noteq> []) (split_slash p)"

text \<open>The web client's \<^verbatim>\<open>doc(db, path, segment)\<close> and \<^verbatim>\<open>collection(db, path)\<close>.\<close>

definition doc_web :: "string \<Rightarrow> string \<Rightarrow> lib_error + path" where
  "doc_web p seg =
     (if p = [] \<or> has_double_slash p \<or> has_double_slash seg then Inl Invalid_path
      else (let segs = segments p @ segments seg
            in if even (length segs) then Inr segs else Inl Invalid_path))"

definition collection_web :: "string \<Rightarrow> lib_error + path" where
  "collection_web p =
     (if p = [] \<or> has_double_slash p then Inl Invalid_path
      else (let segs = segments p
            in if odd (length segs) then Inr segs else Inl Invalid_path))"

section \<open>Client: paths, the paywall check and the usage counter\<close>

definition FREE_TRIAL_LIMIT :: int where
  "FREE_TRIAL_LIMIT = 3"

text \<open>
  The ambient \<^verbatim>\<open>__app_id\<close> is \<open>None\<close> when \<^verbatim>\<open>typeof __app_id\<close> is \<^verbatim>\<open>'undefined'\<close>, otherwise the
  string it holds. \<open>usageAppId\<close> and \<open>reportsAppId\<close> are the \<^verbatim>\<open>const appId\<close> lines of
  \<^verbatim>\<open>getUsageDocRef\<close> and \<^verbatim>\<open>getReportsCollectionRef\<close>; the second one has the identifier
  in quotes, so it yields the text \<^verbatim>\<open>__app_id\<close> itself.
\<close>

definition usageAppId :: "string option \<Rightarrow> string" where
  "usageAppId app_id = (case app_id of Some a \<Rightarrow> a | None \<Rightarrow> ''default-app-id'')"

definition reportsAppId :: "string option \<Rightarrow> string" where
  "reportsAppId app_id = (case app_id of Some a \<Rightarrow> ''__app_id'' | None \<Rightarrow> ''default-app-id'')"

definition getUsageDocRef :: "string option \<Rightarrow> string \<Rightarrow> lib_error + path" where
  "getUsageDocRef app_id userId =
     (let appId = usageAppId app_id
      in doc_web (''artifacts/'' @ appId @ ''/users/'' @ userId @ ''/usage_limits'') ''main_tracker'')"

definition getReportsCollectionRef :: "string option \<Rightarrow> lib_error + path" where
  "getReportsCollectionRef app_id =
     (let appId = reportsAppId app_id
      in collection_web (''artifacts/'' @ appId @ ''/compliance_reports''))"

text \<open>The paywall check, a pure expression over the \<^verbatim>\<open>usageLimits\<close> state.\<close>

definition isTrialOver :: "usage_doc \<Rightarrow> bool" where
  "isTrialOver usageLimits \<longleftrightarrow>
     js_ge (bidderChecks usageLimits) FREE_TRIAL_LIMIT \<and> \<not> truthy_bool (isSubscribed usageLimits)"

text \<open>The state of the \<^verbatim>\<open>App\<close> component that the metering touches, and the remote store.\<close>

record client =
  db :: bool
  userId :: "string option"
  usageLimits :: usage_doc
  isPaywallOpen :: bool
  errorMessage :: "string option"
  store :: firestore

text \<open>The object literal \<^verbatim>\<open>{ initiatorChecks: 0, bidderChecks: 0, isSubscribed: false }\<close>.\<close>

definition initialData :: usage_doc where
  "initialData = \<lparr>initiatorChecks = Some 0, bidderChecks = Some 0,
                  isSubscribed = Some False, stripeCustomerId = None\<rparr>"

text \<open>
  The callback given to \<^verbatim>\<open>runTransaction\<close>: one read of the document and one \<^verbatim>\<open>set\<close> of the
  whole object, as a single step on the store.
\<close>

definition transaction_update :: "path \<Rightarrow> roleKey \<Rightarrow> firestore \<Rightarrow> firestore" where
  "transaction_update docRef roleKey fs =
     (let currentData = (case fs docRef of Some d \<Rightarrow> d | None \<Rightarrow> initialData);
          newCount = js_plus (or_zero (get_counter currentData roleKey)) 1
      in fs(docRef \<mapsto> set_counter roleKey newCount currentData))"

text \<open>
  \<^verbatim>\<open>incrementUsage\<close>. \<open>Inl e\<close> is the call throwing \<open>e\<close>: \<^verbatim>\<open>getUsageDocRef\<close> stands before the
  \<^verbatim>\<open>try\<close>. The argument \<open>txn\<close> is the outcome of \<^verbatim>\<open>runTransaction\<close>: \<open>None\<close> when it commits,
  \<open>Some msg\<close> when it rejects with an error whose message is \<open>msg\<close>, which the \<^verbatim>\<open>catch\<close>
  reports and which leaves the store as it was.
\<close>

definition incrementUsage :: "string option \<Rightarrow> string option \<Rightarrow> roleKey \<Rightarrow> client \<Rightarrow> message + client" where
  "incrementUsage app_id txn roleKey c =
     (case userId c of
        None \<Rightarrow> Inr c
      | Some uid \<Rightarrow>
          if \<not> db c \<or> uid = [] then Inr c
          else (case getUsageDocRef app_id uid of
                  Inl e \<Rightarrow> Inl (Lib e)
                | Inr docRef \<Rightarrow>
                    (case txn of
                       None \<Rightarrow> Inr (c\<lparr>store := transaction_update docRef roleKey (store c)\<rparr>)
                     | Some msg \<Rightarrow>
                         Inr (c\<lparr>errorMessage :=
                                  Some (''Failed to update usage count. Details: '' @ msg)\<rparr>))))"

text \<open>
  The listener of the second effect, run on the current content of the user's document:
  an existing document is copied into \<^verbatim>\<open>usageLimits\<close> with \<^verbatim>\<open>isSubscribed || false\<close>; a missing
  one is created from \<^verbatim>\<open>initialData\<close>.
\<close>

definition onSnapshot_usage :: "string option \<Rightarrow> client \<Rightarrow> message + client" where
  "onSnapshot_usage app_id c =
     (case userId c of
        None \<Rightarrow> Inr c
      | Some uid \<Rightarrow>
          if \<not> db c \<or> uid = [] then Inr c
          else (case getUsageDocRef app_id uid of
                  Inl e \<Rightarrow> Inl (Lib e)
                | Inr docRef \<Rightarrow>
                    (case store c docRef of
                       Some d \<Rightarrow> Inr (c\<lparr>usageLimits := d\<lparr>isSubscribed := Some (or_false (isSubscribed d))\<rparr>\<rparr>)
                     | None \<Rightarrow> Inr (c\<lparr>store := (store c)(docRef \<mapsto> initialData),
                                      usageLimits := initialData\<rparr>))))"

text \<open>
  Modelled from the spec: the body of \<^verbatim>\<open>handleAnalyze\<close> after its paywall check is missing
  from the source, which ends inside the error message of that check. Following the
  specification of the entitlement gate, a blocked action does not proceed and increments
  no counter; an allowed action proceeds, and a completed audit (\<open>audit_ok\<close>) increments
  the counter by one call of \<^verbatim>\<open>incrementUsage\<close>. The lines that the source has fix the key to
  \<^verbatim>\<open>'bidderChecks'\<close> and, when \<^verbatim>\<open>isTrialOver\<close> holds, open the paywall and set an error
  message that starts with \<^verbatim>\<open>Trial\<close> (\<open>msg\<close> is the rest of that message).
\<close>

definition handleAnalyze ::
  "string option \<Rightarrow> string option \<Rightarrow> bool \<Rightarrow> string \<Rightarrow> client \<Rightarrow> message + client" where
  "handleAnalyze app_id txn audit_ok msg c =
     (let roleKey = BidderChecks
      in if isTrialOver (usageLimits c)
         then Inr (c\<lparr>isPaywallOpen := True, errorMessage := Some (''Trial'' @ msg)\<rparr>)
         else if audit_ok then incrementUsage app_id txn roleKey c
         else Inr c)"

section \<open>Server: the webhook and the customer portal\<close>

text \<open>
  The server reads two keys from its environment (\<open>None\<close> when unset) and reaches the
  document store through the Firebase admin app, which exists only when
  \<^verbatim>\<open>FIREBASE_SERVICE_ACCOUNT\<close> was given: \<open>admin_apps\<close> is \<^verbatim>\<open>admin.apps.length\<close>, and without an
  app \<^verbatim>\<open>admin.firestore()\<close> throws.
\<close>

record server =
  STRIPE_SECRET_KEY :: "string option"
  STRIPE_WEBHOOK_SECRET :: "string option"
  admin_apps :: nat
  admin_firestore :: firestore

datatype body = Empty | Text string | Json_error message | Json_url string

record response =
  status :: nat
  body :: body

text \<open>
  What a route handler does with a request: it sends a response, or it throws (its
  promise is rejected) before sending one.
\<close>

datatype outcome = Reply response | Rejected message

text \<open>
  A verified event: its \<^verbatim>\<open>type\<close> and the two fields that the handler reads from
  \<^verbatim>\<open>event.data.object\<close>, each a string or \<^verbatim>\<open>null\<close> as in Stripe's objects.
\<close>

record stripe_object =
  client_reference_id :: "string nullable"
  customer :: "string nullable"

record event =
  event_type :: string
  data_object :: stripe_object

record webhook_request =
  rawBody :: "string option"
  stripe_signature :: "string option"

text \<open>
  The services behind the server. \<open>constructEvent\<close> stands for
  \<^verbatim>\<open>stripe.webhooks.constructEvent\<close>, the library's signature check on the raw body, the
  signature header and the webhook secret: \<open>Inl msg\<close> when it throws an error with that
  message, \<open>Inr event\<close> when the signature verifies. \<open>set_error\<close> and \<open>get_error\<close> tell
  whether the store rejects a write or a read of a document, and with which message.
  \<open>create_session\<close> stands for \<^verbatim>\<open>stripe.billingPortal.sessions.create\<close> on a customer and a
  return address: \<open>Inl msg\<close> when it throws, \<open>Inr url\<close> with the session's URL otherwise.
\<close>

record services =
  constructEvent :: "string option \<Rightarrow> string option \<Rightarrow> string option \<Rightarrow> string + event"
  set_error :: "path \<Rightarrow> string option"
  get_error :: "path \<Rightarrow> string option"
  create_session :: "string \<Rightarrow> string \<Rightarrow> string + string"

text \<open>
  \<^verbatim>\<open>require('stripe')(key)\<close>: the constructor of the current library throws when it is given
  no key (the repository names no version of the library).
\<close>

definition Stripe :: "string option \<Rightarrow> lib_error + unit" where
  "Stripe key = (if falsy_str key then Inl No_api_key else Inr ())"

text \<open>
  \<^verbatim>\<open>collection('users').doc(userId).collection('usage_limits').doc('main_tracker')\<close> with the
  admin client. The argument \<open>user_id\<close> is the \<^verbatim>\<open>userId\<close> of the source; \<open>None\<close> is one that is
  missing or not a string.
\<close>

definition server_usage_doc :: "string option \<Rightarrow> lib_error + path" where
  "server_usage_doc user_id =
     (case user_id of
        None \<Rightarrow> Inl Invalid_path
      | Some uid \<Rightarrow>
          if uid = [] \<or> has_double_slash uid then Inl Invalid_path
          else (let user = [''users''] @ segments uid
                in if even (length user) then Inr (user @ [''usage_limits''] @ [''main_tracker''])
                   else Inl Invalid_path))"

text \<open>
  \<^verbatim>\<open>set({ isSubscribed: true, stripeCustomerId }, { merge: true })\<close> on a document that may not
  exist yet: the two fields are written and every other field stays.
\<close>

definition empty_doc :: usage_doc where
  "empty_doc = \<lparr>initiatorChecks = None, bidderChecks = None,
                isSubscribed = None, stripeCustomerId = None\<rparr>"

definition set_merge :: "string nullable \<Rightarrow> usage_doc option \<Rightarrow> usage_doc" where
  "set_merge cid old =
     (case old of None \<Rightarrow> empty_doc | Some d \<Rightarrow> d)\<lparr>isSubscribed := Some True, stripeCustomerId := Some cid\<rparr>"

text \<open>
  The webhook route. The Stripe client is made before the \<^verbatim>\<open>try\<close>, and the write of the
  checkout branch is awaited outside any \<^verbatim>\<open>try\<close>: when either throws, no response is sent.
\<close>

definition webhook :: "services \<Rightarrow> webhook_request \<Rightarrow> server \<Rightarrow> outcome \<times> server" where
  "webhook env req s =
     (case Stripe (STRIPE_SECRET_KEY s) of
        Inl e \<Rightarrow> (Rejected (Lib e), s)
      | Inr stripe \<Rightarrow>
          (case constructEvent env (rawBody req) (stripe_signature req) (STRIPE_WEBHOOK_SECRET s) of
             Inl msg \<Rightarrow> (Reply \<lparr>status = 400, body = Text (''Webhook Error: '' @ msg)\<rparr>, s)
           | Inr event \<Rightarrow>
               (case (if event_type event = ''checkout.session.completed''
                      then (let session = data_object event;
                                stripeCustomerId = customer session
                            in case client_reference_id session of
                                 Null \<Rightarrow> Inr s
                               | Val uid \<Rightarrow>
                                   if uid \<noteq> [] \<and> admin_apps s \<noteq> 0
                                   then (case server_usage_doc (Some uid) of
                                           Inl e \<Rightarrow> Inl (Lib e)
                                         | Inr docRef \<Rightarrow>
                                             (case set_error env docRef of
                                                Some msg \<Rightarrow> Inl (Lit msg)
                                              | None \<Rightarrow>
                                                  Inr (s\<lparr>admin_firestore := (admin_firestore s)
                                                         (docRef \<mapsto> set_merge stripeCustomerId
                                                                      (admin_firestore s docRef))\<rparr>)))
                                   else Inr s)
                      else Inr s) of
                  Inl e \<Rightarrow> (Rejected e, s)
                | Inr s1 \<Rightarrow>
                    (let s2 = (if event_type event = ''customer.subscription.deleted'' then s1 else s1)
                     in (Reply \<lparr>status = 200, body = Empty\<rparr>, s2)))))"

text \<open>
  The portal route. Its outbound calls are recorded in order. Everything after the key
  check stands inside the \<^verbatim>\<open>try\<close>, so an error there is answered with status \<open>500\<close> and the
  error's message.
\<close>

datatype call = Firestore_get path | Portal_create string string

record portal_result =
  reply :: response
  calls :: "call list"
  after :: server

definition return_url :: string where
  "return_url = ''https://smartbid-secure.onrender.com''"

definition create_portal_session :: "services \<Rightarrow> string option \<Rightarrow> server \<Rightarrow> portal_result" where
  "create_portal_session env user_id s =
     (if falsy_str (STRIPE_SECRET_KEY s)
      then \<lparr>reply = \<lparr>status = 500, body = Json_error (Lit ''Server missing Stripe Key'')\<rparr>,
            calls = [], after = s\<rparr>
      else if admin_apps s = 0
      then \<lparr>reply = \<lparr>status = 500, body = Json_error (Lib No_firebase_app)\<rparr>, calls = [], after = s\<rparr>
      else (case server_usage_doc user_id of
              Inl e \<Rightarrow> \<lparr>reply = \<lparr>status = 500, body = Json_error (Lib e)\<rparr>, calls = [], after = s\<rparr>
            | Inr docRef \<Rightarrow>
                (case get_error env docRef of
                   Some msg \<Rightarrow>
                     \<lparr>reply = \<lparr>status = 500, body = Json_error (Lit msg)\<rparr>,
                      calls = [Firestore_get docRef], after = s\<rparr>
                 | None \<Rightarrow>
                     (let userDoc = admin_firestore s docRef;
                          stripeCustomerId = (case userDoc of None \<Rightarrow> None | Some d \<Rightarrow> stripeCustomerId d)
                      in case stripeCustomerId of
                           Some (Val cid) \<Rightarrow>
                             if cid = []
                             then \<lparr>reply = \<lparr>status = 404,
                                            body = Json_error (Lit ''No subscription found for this user.'')\<rparr>,
                                   calls = [Firestore_get docRef], after = s\<rparr>
                             else (case create_session env cid return_url of
                                     Inr url \<Rightarrow>
                                       \<lparr>reply = \<lparr>status = 200, body = Json_url url\<rparr>,
                                        calls = [Firestore_get docRef, Portal_create cid return_url],
                                        after = s\<rparr>
                                   | Inl msg \<Rightarrow>
                                       \<lparr>reply = \<lparr>status = 500, body = Json_error (Lit msg)\<rparr>,
                                        calls = [Firestore_get docRef, Portal_create cid return_url],
                                        after = s\<rparr>)
                         | _ \<Rightarrow> \<lparr>reply = \<lparr>status = 404,
                                          body = Json_error (Lit ''No subscription found for this user.'')\<rparr>,
                                  calls = [Firestore_get docRef], after = s\<rparr>))))"

section \<open>Reports: the compliance percentage\<close>

text \<open>
  \<^verbatim>\<open>getCompliancePercentage\<close> reads only \<^verbatim>\<open>report.findings\<close> and each finding's
  \<^verbatim>\<open>complianceScore\<close>, a number; both may be missing.
\<close>

record finding =
  complianceScore :: "rat option"

record report =
  findings :: "finding list option"

definition getCompliancePercentage :: "report \<Rightarrow> rat" where
  "getCompliancePercentage r =
     (let fs = (case findings r of None \<Rightarrow> [] | Some xs \<Rightarrow> xs);
          totalScore = foldl (\<lambda>sum item. js_add sum (or_zero (complianceScore item))) 0 fs;
          totalRequirements = length fs;
          maxScore = totalRequirements * 1
      in if maxScore > 0
         then parseFloat (toFixed1 (js_mul (js_div totalScore (of_nat maxScore)) 100))
         else 0)"

section \<open>The specification's gate and formulas, for comparison\<close>

text \<open>
  The specification's \<open>UsageRecord\<close> has total fields, and its gate takes the limit as an
  argument. \<open>usage_record\<close> reads a stored document as such a record: a missing counter
  is \<open>0\<close>, a missing flag is \<open>False\<close>.
\<close>

record UsageRecord =
  rec_initiatorChecks :: int
  rec_bidderChecks :: int
  rec_isSubscribed :: bool
  billingCustomerId :: "string option"

definition isBlocked :: "UsageRecord \<Rightarrow> int \<Rightarrow> bool" where
  "isBlocked usage limit \<longleftrightarrow> rec_bidderChecks usage \<ge> limit \<and> rec_isSubscribed usage = False"

definition usage_record :: "usage_doc \<Rightarrow> UsageRecord" where
  "usage_record d =
     \<lparr>rec_initiatorChecks = or_zero (initiatorChecks d),
      rec_bidderChecks = or_zero (bidderChecks d),
      rec_isSubscribed = truthy_bool (isSubscribed d),
      billingCustomerId = (case stripeCustomerId d of Some (Val cid) \<Rightarrow> Some cid | _ \<Rightarrow> None)\<rparr>"

text \<open>The value of a counter before an increment: \<open>0\<close> when the record or the field is missing.\<close>

definition prior_count :: "usage_doc option \<Rightarrow> roleKey \<Rightarrow> int" where
  "prior_count old k =
     (case old of None \<Rightarrow> 0 | Some d \<Rightarrow> (case get_counter d k of None \<Rightarrow> 0 | Some n \<Rightarrow> n))"

text \<open>The counter that a call of \<open>incrementUsage\<close> leaves in a document (\<open>None\<close> when the call
  throws, or the document or the field is missing).\<close>

definition counter_after :: "message + client \<Rightarrow> path \<Rightarrow> roleKey \<Rightarrow> int option" where
  "counter_after res p k =
     (case res of
        Inl e \<Rightarrow> None
      | Inr c \<Rightarrow> (case store c p of None \<Rightarrow> None | Some d \<Rightarrow> get_counter d k))"

text \<open>An identifier that is one path segment: not empty and without a slash.\<close>

definition plain_segment :: "string \<Rightarrow> bool" where
  "plain_segment s \<longleftrightarrow> s \<noteq> [] \<and> CHR ''/'' \<notin> set s"

text \<open>
  The unrounded percentage: the sum of the scores (a missing score counts as \<open>0\<close>) divided
  by the number of findings, times \<open>100\<close>, in exact arithmetic. \<open>double_sum\<close> is the sum
  as the program adds it, in doubles from the left.
\<close>

definition average_percentage :: "finding list \<Rightarrow> rat" where
  "average_percentage fs =
     (\<Sum>f\<leftarrow>fs. case complianceScore f of None \<Rightarrow> 0 | Some x \<Rightarrow> x) / of_nat (length fs) * 100"

definition double_sum :: "finding list \<Rightarrow> rat" where
  "double_sum fs = foldl (\<lambda>sum item. js_add sum (case complianceScore item of None \<Rightarrow> 0 | Some x \<Rightarrow> x)) 0 fs"

text \<open>The scores of the specification's data model: \<open>0\<close>, \<open>0.5\<close> or \<open>1\<close>, or missing.\<close>

definition data_model_scores :: "finding list \<Rightarrow> bool" where
  "data_model_scores fs \<longleftrightarrow>
     (\<forall>f \<in> set fs. complianceScore f \<in> {None, Some 0, Some (1 / 2), Some 1})"

section \<open>Example inputs\<close>

definition example_doc :: usage_doc where
  "example_doc = \<lparr>initiatorChecks = Some 0, bidderChecks = Some 2,
                  isSubscribed = Some False, stripeCustomerId = None\<rparr>"

definition client_path :: path where
  "client_path = [''artifacts'', ''default-app-id'', ''users'', ''u1'', ''usage_limits'', ''main_tracker'']"

definition server_path :: path where
  "server_path = [''users'', ''u1'', ''usage_limits'', ''main_tracker'']"

definition example_client :: client where
  "example_client =
     \<lparr>db = True, userId = Some ''u1'', usageLimits = example_doc, isPaywallOpen = False,
      errorMessage = None, store = [client_path \<mapsto> example_doc]\<rparr>"

definition fresh_client :: client where
  "fresh_client =
     \<lparr>db = True, userId = Some ''u1'', usageLimits = initialData, isPaywallOpen = False,
      errorMessage = None, store = Map.empty\<rparr>"

definition blocked_client :: client where
  "blocked_client =
     \<lparr>db = True, userId = Some ''u1'', usageLimits = example_doc\<lparr>bidderChecks := Some 3\<rparr>,
      isPaywallOpen = False, errorMessage = None,
      store = [client_path \<mapsto> example_doc\<lparr>bidderChecks := Some 3\<rparr>]\<rparr>"

text \<open>A client whose counter has reached \<open>2 ^ 53\<close>.\<close>

definition saturated_client :: client where
  "saturated_client =
     \<lparr>db = True, userId = Some ''u1'', usageLimits = example_doc, isPaywallOpen = False,
      errorMessage = None,
      store = [client_path \<mapsto> example_doc\<lparr>bidderChecks := Some 9007199254740992\<rparr>]\<rparr>"

definition example_checkout :: event where
  "example_checkout =
     \<lparr>event_type = ''checkout.session.completed'',
      data_object = \<lparr>client_reference_id = Val ''u1'', customer = Val ''cus_123''\<rparr>\<rparr>"

definition slash_checkout :: event where
  "slash_checkout =
     \<lparr>event_type = ''checkout.session.completed'',
      data_object = \<lparr>client_reference_id = Val ''a/b'', customer = Val ''cus_123''\<rparr>\<rparr>"

definition example_deleted :: event where
  "example_deleted =
     \<lparr>event_type = ''customer.subscription.deleted'',
      data_object = \<lparr>client_reference_id = Null, customer = Val ''cus_123''\<rparr>\<rparr>"

text \<open>
  Services whose signature check accepts one header under one secret and reads three
  bodies, whose store rejects nothing, and whose billing provider knows one customer.
\<close>

definition example_env :: services where
  "example_env =
     \<lparr>constructEvent = (\<lambda>raw sig secret.
        if secret = Some ''whsec_1'' \<and> sig = Some ''t=1,v1=ok''
        then (if raw = Some ''checkout'' then Inr example_checkout
              else if raw = Some ''slash'' then Inr slash_checkout
              else if raw = Some ''deleted'' then Inr example_deleted
              else Inl ''Unexpected token'')
        else Inl ''No signatures found matching the expected signature for payload''),
      set_error = (\<lambda>p. None),
      get_error = (\<lambda>p. None),
      create_session = (\<lambda>cid ret.
        if cid = ''cus_123'' then Inr ''https://billing.stripe.com/p/session/abc''
        else Inl (''No such customer: '' @ cid))\<rparr>"


definition checkout_request :: webhook_request where
  "checkout_request = \<lparr>rawBody = Some ''checkout'', stripe_signature = Some ''t=1,v1=ok''\<rparr>"

definition slash_request :: webhook_request where
  "slash_request = \<lparr>rawBody = Some ''slash'', stripe_signature = Some ''t=1,v1=ok''\<rparr>"

definition deleted_request :: webhook_request where
  "deleted_request = \<lparr>rawBody = Some ''deleted'', stripe_signature = Some ''t=1,v1=ok''\<rparr>"

definition forged_request :: webhook_request where
  "forged_request = \<lparr>rawBody = Some ''checkout'', stripe_signature = Some ''t=1,v1=forged''\<rparr>"

text \<open>A server whose store holds the user's document under the client's path and under
  the server's path; \<open>linked_server\<close> is that server after the user's checkout.\<close>

definition example_server :: server where
  "example_server =
     \<lparr>STRIPE_SECRET_KEY = Some ''sk_test_1'', STRIPE_WEBHOOK_SECRET = Some ''whsec_1'',
      admin_apps = 1, admin_firestore = [client_path \<mapsto> example_doc, server_path \<mapsto> example_doc]\<rparr>"

definition linked_server :: server where
  "linked_server =
     example_server\<lparr>admin_firestore :=
       [client_path \<mapsto> example_doc,
        server_path \<mapsto> example_doc\<lparr>isSubscribed := Some True,
                                       stripeCustomerId := Some (Val ''cus_123'')\<rparr>]\<rparr>"


text \<open>Forty findings: eleven met, one half met, twenty-eight not met.\<close>

definition forty_findings :: "finding list" where
  "forty_findings =
     replicate 11 \<lparr>complianceScore = Some 1\<rparr> @ [\<lparr>complianceScore = Some (1 / 2)\<rparr>] @
     replicate 28 \<lparr>complianceScore = Some 0\<rparr>"

section \<open>Facts about numbers\<close>

declare bit_length.simps [simp del]

lemma bit_length_nonpos: "n \<le> 0 \<Longrightarrow> bit_length n = 0"
  by (simp add: bit_length.simps)

lemma bit_length_step: "0 < n \<Longrightarrow> bit_length n = 1 + bit_length (n div 2)"
  by (subst bit_length.simps) simp

lemma bit_length_ge0: "0 \<le> bit_length n"
proof (induction n rule: bit_length.induct)
  case (1 n)
  then show ?case
    by (cases "n \<le> 0") (simp_all add: bit_length_nonpos bit_length_step)
qed

lemma bit_length_bounds:
  "0 < n \<Longrightarrow> 1 \<le> bit_length n \<and> 2 ^ nat (bit_length n - 1) \<le> n \<and> n < 2 ^ nat (bit_length n)"
proof (induction n rule: bit_length.induct)
  case (1 n)
  show ?case
  proof (cases "n = 1")
    case True
    then show ?thesis
      by (simp add: bit_length_step bit_length_nonpos)
  next
    case False
    with "1.prems" have m: "0 < n div 2" by simp
    define b where "b = bit_length (n div 2)"
    from "1.IH" "1.prems" m have ih: "1 \<le> b" "2 ^ nat (b - 1) \<le> n div 2" "n div 2 < 2 ^ nat b"
      by (simp_all add: b_def)
    have bn: "bit_length n = 1 + b"
      using "1.prems" by (simp add: bit_length_step b_def)
    have p: "(2::int) ^ nat b = 2 * 2 ^ nat (b - 1)"
      using ih(1) by (metis Suc_nat_eq_nat_zadd1 add.commute diff_add_cancel diff_ge_0_iff_ge power_Suc)
    have q: "(2::int) ^ nat (1 + b) = 2 * 2 ^ nat b"
      using ih(1) by (simp add: nat_add_distrib)
    have "2 * (n div 2) \<le> n" "n \<le> 2 * (n div 2) + 1"
      by linarith+
    with ih p q show ?thesis
      by (simp add: bn)
  qed
qed

lemma round_half_even_of_int: "round_half_even (of_int k) = k"
  by (simp add: round_half_even_def)



lemma pow2_nonneg: "0 \<le> e \<Longrightarrow> pow2 e = 2 ^ nat e"
  by (simp add: pow2_def)


lemma ilog2_int:
  assumes "0 < m"
  shows "ilog2 (of_int m) = bit_length m - 1"
  using assms by (simp add: ilog2_def)

text \<open>An integer of at most 53 bits is a double.\<close>

lemma round_double_pos_int:
  assumes "0 < m" and "m \<le> 2 ^ 53"
  shows "round_double (of_int m) = of_int m"
proof -
  define b where "b = bit_length m"
  from bit_length_bounds [OF assms(1)]
  have b: "1 \<le> b" "2 ^ nat (b - 1) \<le> m" "m < 2 ^ nat b"
    by (simp_all add: b_def)
  have le53: "(2::int) ^ nat (b - 1) \<le> 2 ^ 53"
    using b(2) assms(2) by linarith
  have b54: "b \<le> 54"
  proof (rule ccontr)
    assume "\<not> b \<le> 54"
    then have "54 \<le> nat (b - 1)"
      by simp
    then have "(2::int) ^ 54 \<le> 2 ^ nat (b - 1)"
      by (rule power_increasing) simp
    with le53 show False
      by simp
  qed
  have e: "max (ilog2 (of_int m) - 52) (- 1074) = b - 53"
    using b(1) assms(1) by (simp add: ilog2_int b_def)
  have a: "\<bar>(of_int m :: rat)\<bar> = of_int m" and sg: "sgn (of_int m :: rat) = 1"
    using assms(1) by simp_all
  show ?thesis
  proof (cases "b \<le> 53")
    case True
    then have p: "pow2 (b - 53) = 1 / 2 ^ nat (53 - b)"
      by (cases "b = 53") (simp_all add: pow2_def)
    have "(of_int m :: rat) / pow2 (b - 53) = of_int (m * 2 ^ nat (53 - b))"
      by (simp add: p)
    then have "round_half_even (of_int m / pow2 (b - 53)) = m * 2 ^ nat (53 - b)"
      by (simp only: round_half_even_of_int)
    then show ?thesis
      using assms(1) by (simp add: round_double_def Let_def e a sg p)
  next
    case False
    with b54 have b_eq: "b = 54" by simp
    with b(2) assms(2) have m: "m = 2 ^ 53" by simp
    have "(of_int m :: rat) / pow2 (b - 53) = of_int (2 ^ 52)"
      by (simp add: b_eq m pow2_def)
    then have "round_half_even (of_int m / pow2 (b - 53)) = 2 ^ 52"
      by (simp only: round_half_even_of_int)
    then show ?thesis
      using assms(1) by (simp add: round_double_def Let_def e a sg) (simp add: b_eq m pow2_def)
  qed
qed

lemma round_double_int:
  assumes "\<bar>m\<bar> \<le> 2 ^ 53"
  shows "round_double (of_int m) = of_int m"
proof -
  have neg: "round_double (- x) = - round_double x" for x
    by (simp add: round_double_def Let_def)
  consider "m = 0" | "0 < m" | "m < 0" by linarith
  then show ?thesis
  proof cases
    case 1
    then show ?thesis by (simp add: round_double_def)
  next
    case 2
    with assms show ?thesis by (simp add: round_double_pos_int)
  next
    case 3
    with assms have "round_double (of_int (- m)) = of_int (- m)"
      by (intro round_double_pos_int) simp_all
    then show ?thesis
      using neg [of "of_int m"] by simp
  qed
qed

lemma js_plus_exact:
  assumes "\<bar>n + k\<bar> \<le> 2 ^ 53"
  shows "js_plus n k = n + k"
proof -
  have "js_add (of_int n) (of_int k) = of_int (n + k)"
    using round_double_int [OF assms] by (simp add: js_add_def)
  then show ?thesis
    by (simp add: js_plus_def)
qed

lemma js_plus_at_2_53: "js_plus 9007199254740992 1 = 9007199254740992"
  by code_simp

lemma round_double_one_half: "round_double (1 / 2) = 1 / 2"
  by code_simp

lemma round_double_odd_half:
  assumes "1 \<le> m" and "2 * m + 1 \<le> 2 ^ 53"
  shows "round_double (of_int (2 * m + 1) / 2) = of_int (2 * m + 1) / 2"
proof -
  define x :: rat where "x = of_int (2 * m + 1) / 2"
  define b where "b = bit_length m"
  from assms(1) have mpos: "0 < m" by simp
  from bit_length_bounds [OF mpos]
  have b: "1 \<le> b" "2 ^ nat (b - 1) \<le> m" "m < 2 ^ nat b"
    by (simp_all add: b_def)
  have xm: "x = of_int m + 1 / 2"
    by (simp add: x_def field_simps)
  have fl: "\<lfloor>x\<rfloor> = m"
    unfolding xm by (rule floor_unique) simp_all
  have x1: "1 \<le> x"
    using assms(1) by (simp add: xm)
  have lt52: "(2::int) ^ nat (b - 1) < 2 ^ 52"
    using b(2) assms(2) by simp
  have b52: "b \<le> 52"
  proof (rule ccontr)
    assume "\<not> b \<le> 52"
    then have "52 \<le> nat (b - 1)"
      by simp
    then have "(2::int) ^ 52 \<le> 2 ^ nat (b - 1)"
      by (rule power_increasing) simp
    with lt52 show False
      by simp
  qed
  have e: "max (ilog2 x - 52) (- 1074) = b - 53"
    using b(1) x1 by (simp add: ilog2_def fl b_def)
  have a: "\<bar>x\<bar> = x" and sg: "sgn x = 1"
    using x1 by simp_all
  have p: "pow2 (b - 53) = 1 / 2 ^ nat (53 - b)"
    using b52 by (simp add: pow2_def)
  have "nat (53 - b) = Suc (nat (52 - b))"
    using b52 by simp
  then have q: "(2::rat) ^ nat (53 - b) = 2 * 2 ^ nat (52 - b)"
    by simp
  have "x / pow2 (b - 53) = of_int ((2 * m + 1) * 2 ^ nat (52 - b))"
    by (simp add: p q x_def)
  then have "round_half_even (x / pow2 (b - 53)) = (2 * m + 1) * 2 ^ nat (52 - b)"
    by (simp only: round_half_even_of_int)
  then have "round_double x = x"
    using x1 by (simp add: round_double_def Let_def e a sg p q) (simp add: x_def)
  then show ?thesis
    by (simp add: x_def)
qed


text \<open>A non-negative multiple of one half with at most 53 bits is a double.\<close>

lemma round_double_half:
  assumes "0 \<le> k" and "k \<le> 2 ^ 53"
  shows "round_double (of_int k / 2) = of_int k / 2"
proof (cases "even k")
  case True
  then obtain m where k: "k = 2 * m" by (elim evenE)
  with assms have "\<bar>m\<bar> \<le> 2 ^ 53" by simp
  then have "round_double (of_int m) = of_int m"
    by (rule round_double_int)
  then show ?thesis
    by (simp add: k)
next
  case False
  then obtain m where k: "k = 2 * m + 1" by (elim oddE)
  show ?thesis
  proof (cases "m = 0")
    case True
    then show ?thesis
      by (simp add: k round_double_one_half)
  next
    case False
    with assms k have "1 \<le> m" and "2 * m + 1 \<le> 2 ^ 53"
      by simp_all
    then show ?thesis
      unfolding k by (rule round_double_odd_half)
  qed
qed






section \<open>Facts about the model\<close>

lemma or_zero_eq: "or_zero v = (case v of None \<Rightarrow> 0 | Some n \<Rightarrow> n)"
  by (simp add: or_zero_def split: option.splits)

lemma get_set_counter:
  "get_counter (set_counter k n d) k' = (if k' = k then Some n else get_counter d k')"
  by (cases k; cases k') simp_all

lemma set_counter_frame:
  "isSubscribed (set_counter k n d) = isSubscribed d"
  "stripeCustomerId (set_counter k n d) = stripeCustomerId d"
  by (cases k; simp)+

lemma get_counter_initialData: "get_counter initialData k = Some 0"
  by (cases k) (simp_all add: initialData_def)

lemma set_merge_idem: "set_merge cid (Some (set_merge cid old)) = set_merge cid old"
  by (simp add: set_merge_def split: option.splits)

lemma set_merge_fields:
  "isSubscribed (set_merge cid old) = Some True"
  "stripeCustomerId (set_merge cid old) = Some cid"
  "initiatorChecks (set_merge cid old) = (case old of None \<Rightarrow> None | Some d \<Rightarrow> initiatorChecks d)"
  "bidderChecks (set_merge cid old) = (case old of None \<Rightarrow> None | Some d \<Rightarrow> bidderChecks d)"
  by (simp_all add: set_merge_def empty_doc_def split: option.splits)

text \<open>Paths built from identifiers that are one segment each.\<close>

lemma split_slash_plain: "CHR ''/'' \<notin> set s \<Longrightarrow> split_slash s = [s]"
  by (induction s) auto

lemma split_slash_append:
  "CHR ''/'' \<notin> set s \<Longrightarrow> split_slash (s @ CHR ''/'' # t) = s # split_slash t"
  by (induction s) auto

lemma has_double_slash_append:
  "CHR ''/'' \<notin> set s \<Longrightarrow> has_double_slash (s @ t) = has_double_slash t"
proof (induction s)
  case Nil
  then show ?case by simp
next
  case (Cons c s)
  then show ?case
    by (cases "s @ t") auto
qed

lemma has_double_slash_plain: "CHR ''/'' \<notin> set s \<Longrightarrow> \<not> has_double_slash s"
  using has_double_slash_append [of s "[]"] by simp

lemma has_double_slash_slash:
  assumes "s \<noteq> []" and "CHR ''/'' \<notin> set s"
  shows "has_double_slash (CHR ''/'' # s @ t) = has_double_slash t"
proof -
  from assms obtain c s' where s: "s = c # s'" and c: "c \<noteq> CHR ''/''"
    by (cases s) auto
  have "has_double_slash (CHR ''/'' # s @ t) = has_double_slash (s @ t)"
    using c by (simp add: s)
  with assms(2) show ?thesis
    by (simp add: has_double_slash_append)
qed

lemma segments_plain: "plain_segment s \<Longrightarrow> segments s = [s]"
  by (simp add: plain_segment_def segments_def split_slash_plain)

lemma getUsageDocRef_plain:
  assumes "plain_segment (usageAppId app_id)" and "plain_segment uid"
  shows "getUsageDocRef app_id uid =
           Inr [''artifacts'', usageAppId app_id, ''users'', uid, ''usage_limits'', ''main_tracker'']"
proof -
  define a where "a = usageAppId app_id"
  from assms have a: "a \<noteq> []" "CHR ''/'' \<notin> set a" and u: "uid \<noteq> []" "CHR ''/'' \<notin> set uid"
    by (simp_all add: plain_segment_def a_def)
  define p where "p = ''artifacts/'' @ a @ ''/users/'' @ uid @ ''/usage_limits''"
  have "split_slash p = [''artifacts'', a, ''users'', uid, ''usage_limits'']"
    using a(2) u(2) by (simp add: p_def split_slash_append)
  then have sp: "segments p = [''artifacts'', a, ''users'', uid, ''usage_limits'']"
    using a(1) u(1) by (simp add: segments_def)
  have ds: "\<not> has_double_slash p"
    using a u by (simp add: p_def has_double_slash_slash)
  have ne: "p \<noteq> []"
    by (simp add: p_def)
  have mt: "segments ''main_tracker'' = [''main_tracker'']" "\<not> has_double_slash ''main_tracker''"
    by (simp_all add: segments_def)
  have "getUsageDocRef app_id uid = doc_web p ''main_tracker''"
    by (simp add: getUsageDocRef_def Let_def p_def a_def)
  also have "\<dots> = Inr [''artifacts'', a, ''users'', uid, ''usage_limits'', ''main_tracker'']"
    unfolding doc_web_def Let_def sp mt using ds ne by simp
  finally show ?thesis
    by (simp add: a_def)
qed

lemma server_usage_doc_plain:
  assumes "plain_segment uid"
  shows "server_usage_doc (Some uid) = Inr [''users'', uid, ''usage_limits'', ''main_tracker'']"
  using assms
  by (simp add: server_usage_doc_def segments_plain has_double_slash_plain plain_segment_def)


lemma transaction_update_doc:
  assumes "- (2 ^ 53) \<le> prior_count (fs ref) k" and "prior_count (fs ref) k < 2 ^ 53"
  shows "transaction_update ref k fs =
           fs(ref \<mapsto> set_counter k (prior_count (fs ref) k + 1)
                        (case fs ref of None \<Rightarrow> initialData | Some d \<Rightarrow> d))"
proof -
  have p: "or_zero (get_counter (case fs ref of None \<Rightarrow> initialData | Some d \<Rightarrow> d) k) =
             prior_count (fs ref) k"
    by (simp add: or_zero_eq prior_count_def get_counter_initialData split: option.splits)
  have "\<bar>prior_count (fs ref) k + 1\<bar> \<le> 2 ^ 53"
    using assms by simp
  then have "js_plus (prior_count (fs ref) k) 1 = prior_count (fs ref) k + 1"
    by (rule js_plus_exact)
  then show ?thesis
    by (simp add: transaction_update_def Let_def p split: option.splits)
qed

lemma Stripe_key: "key \<noteq> [] \<Longrightarrow> Stripe (Some key) = Inr ()"
  by (simp add: Stripe_def falsy_str_def)

lemma Stripe_cases: "Stripe k = (if falsy_str k then Inl No_api_key else Inr ())"
  by (simp add: Stripe_def)

text \<open>The webhook, case by case.\<close>

lemma webhook_no_key:
  assumes "falsy_str (STRIPE_SECRET_KEY s)"
  shows "webhook env req s = (Rejected (Lib No_api_key), s)"
  using assms by (simp add: webhook_def Stripe_cases)

lemma webhook_unverified:
  assumes "\<not> falsy_str (STRIPE_SECRET_KEY s)"
    and "constructEvent env (rawBody req) (stripe_signature req) (STRIPE_WEBHOOK_SECRET s) = Inl msg"
  shows "webhook env req s = (Reply \<lparr>status = 400, body = Text (''Webhook Error: '' @ msg)\<rparr>, s)"
  using assms by (simp add: webhook_def Stripe_cases)

lemma webhook_other_type:
  assumes "\<not> falsy_str (STRIPE_SECRET_KEY s)"
    and "constructEvent env (rawBody req) (stripe_signature req) (STRIPE_WEBHOOK_SECRET s) = Inr ev"
    and "event_type ev \<noteq> ''checkout.session.completed''"
  shows "webhook env req s = (Reply \<lparr>status = 200, body = Empty\<rparr>, s)"
  using assms by (simp add: webhook_def Stripe_cases)

lemma webhook_checkout_skipped:
  assumes "\<not> falsy_str (STRIPE_SECRET_KEY s)"
    and "constructEvent env (rawBody req) (stripe_signature req) (STRIPE_WEBHOOK_SECRET s) = Inr ev"
    and "client_reference_id (data_object ev) = Null \<or> client_reference_id (data_object ev) = Val [] \<or>
         admin_apps s = 0"
  shows "webhook env req s = (Reply \<lparr>status = 200, body = Empty\<rparr>, s)"
  using assms by (auto simp: webhook_def Stripe_cases Let_def split: nullable.splits)

lemma webhook_checkout_refused:
  assumes "\<not> falsy_str (STRIPE_SECRET_KEY s)"
    and "constructEvent env (rawBody req) (stripe_signature req) (STRIPE_WEBHOOK_SECRET s) = Inr ev"
    and "event_type ev = ''checkout.session.completed''"
    and "client_reference_id (data_object ev) = Val uid" and "uid \<noteq> []" and "admin_apps s \<noteq> 0"
    and "server_usage_doc (Some uid) = Inl e"
  shows "webhook env req s = (Rejected (Lib e), s)"
  using assms by (simp add: webhook_def Stripe_cases Let_def)

lemma webhook_checkout_write_fails:
  assumes "\<not> falsy_str (STRIPE_SECRET_KEY s)"
    and "constructEvent env (rawBody req) (stripe_signature req) (STRIPE_WEBHOOK_SECRET s) = Inr ev"
    and "event_type ev = ''checkout.session.completed''"
    and "client_reference_id (data_object ev) = Val uid" and "uid \<noteq> []" and "admin_apps s \<noteq> 0"
    and "server_usage_doc (Some uid) = Inr p" and "set_error env p = Some m"
  shows "webhook env req s = (Rejected (Lit m), s)"
  using assms by (simp add: webhook_def Stripe_cases Let_def)

lemma webhook_checkout_writes:
  assumes "\<not> falsy_str (STRIPE_SECRET_KEY s)"
    and "constructEvent env (rawBody req) (stripe_signature req) (STRIPE_WEBHOOK_SECRET s) = Inr ev"
    and "event_type ev = ''checkout.session.completed''"
    and "client_reference_id (data_object ev) = Val uid" and "uid \<noteq> []" and "admin_apps s \<noteq> 0"
    and "server_usage_doc (Some uid) = Inr p" and "set_error env p = None"
  shows "webhook env req s =
           (Reply \<lparr>status = 200, body = Empty\<rparr>,
            s\<lparr>admin_firestore := (admin_firestore s)
                 (p \<mapsto> set_merge (customer (data_object ev)) (admin_firestore s p))\<rparr>)"
  using assms by (simp add: webhook_def Stripe_cases Let_def)

lemma webhook_idempotent:
  "snd (webhook env req (snd (webhook env req s))) = snd (webhook env req s)"
proof (cases "falsy_str (STRIPE_SECRET_KEY s)")
  case True
  then show ?thesis by (simp add: webhook_no_key)
next
  case key: False
  show ?thesis
  proof (cases "constructEvent env (rawBody req) (stripe_signature req) (STRIPE_WEBHOOK_SECRET s)")
    case (Inl msg)
    with key show ?thesis by (simp add: webhook_unverified)
  next
    case (Inr ev)
    show ?thesis
    proof (cases "event_type ev = ''checkout.session.completed''")
      case False
      with key Inr show ?thesis by (simp add: webhook_other_type)
    next
      case ty: True
      show ?thesis
      proof (cases "client_reference_id (data_object ev) = Null \<or>
                    client_reference_id (data_object ev) = Val [] \<or> admin_apps s = 0")
        case True
        with key Inr show ?thesis by (simp add: webhook_checkout_skipped)
      next
        case False
        then obtain uid where uid: "client_reference_id (data_object ev) = Val uid" "uid \<noteq> []"
          and apps: "admin_apps s \<noteq> 0"
          by (cases "client_reference_id (data_object ev)") auto
        show ?thesis
        proof (cases "server_usage_doc (Some uid)")
          case (Inl e)
          with key Inr ty uid apps show ?thesis by (simp add: webhook_checkout_refused)
        next
          case path: (Inr p)
          show ?thesis
          proof (cases "set_error env p")
            case (Some m)
            with key Inr ty uid apps path show ?thesis by (simp add: webhook_checkout_write_fails)
          next
            case None
            define s' where "s' = s\<lparr>admin_firestore := (admin_firestore s)
                 (p \<mapsto> set_merge (customer (data_object ev)) (admin_firestore s p))\<rparr>"
            have once: "webhook env req s = (Reply \<lparr>status = 200, body = Empty\<rparr>, s')"
              unfolding s'_def using key Inr ty uid apps path None by (rule webhook_checkout_writes)
            have "webhook env req s' =
                    (Reply \<lparr>status = 200, body = Empty\<rparr>,
                     s'\<lparr>admin_firestore := (admin_firestore s')
                          (p \<mapsto> set_merge (customer (data_object ev)) (admin_firestore s' p))\<rparr>)"
              using key Inr ty uid apps path None
              by (intro webhook_checkout_writes) (simp_all add: s'_def)
            then show ?thesis
              by (simp add: once) (simp add: s'_def set_merge_idem)
          qed
        qed
      qed
    qed
  qed
qed

section \<open>The entitlement gate\<close>

text \<open>
  Claim C1. The paywall check \<open>isTrialOver\<close> is the specification's gate \<open>isBlocked\<close> at the
  limit \<open>FREE_TRIAL_LIMIT = 3\<close>: it holds exactly when the record's \<open>bidderChecks\<close> is at
  least the limit and the record is not subscribed. It is a function of the usage record
  alone and returns only the verdict.
\<close>

theorem isTrialOver_is_gate:
  "FREE_TRIAL_LIMIT = 3 \<and>
   (isTrialOver u \<longleftrightarrow> isBlocked (usage_record u) FREE_TRIAL_LIMIT) \<and>
   (isTrialOver u \<longleftrightarrow> (\<exists>n. bidderChecks u = Some n \<and> 3 \<le> n) \<and> isSubscribed u \<noteq> Some True)"
  by (auto simp: FREE_TRIAL_LIMIT_def isTrialOver_def isBlocked_def usage_record_def js_ge_def
      or_zero_def truthy_bool_def split: option.splits)

text \<open>The gate at the counts \<open>0, 1, 2, 3, 10\<close>, not subscribed and subscribed.\<close>

lemma isTrialOver_table:
  "map (\<lambda>n. isTrialOver (initialData\<lparr>bidderChecks := Some n\<rparr>)) [0, 1, 2, 3, 10] =
     [False, False, False, True, True]"
  "map (\<lambda>n. isTrialOver (initialData\<lparr>bidderChecks := Some n, isSubscribed := Some True\<rparr>)) [0, 1, 2, 3, 10] =
     [False, False, False, False, False]"
  by (simp_all add: isTrialOver_def initialData_def js_ge_def truthy_bool_def FREE_TRIAL_LIMIT_def)

section \<open>The usage counter\<close>

text \<open>
  Claim C2, as the code has it. When the client has a database handle and a user, the
  document reference is accepted, and the counter before the call (\<open>0\<close> when the document
  or the field is missing) lies in the range from \<open>- 2 ^ 53\<close> up to, not including,
  \<open>2 ^ 53\<close>, one committed \<open>incrementUsage\<close> leaves the user's document with that counter
  plus one. The other counter, the subscription flag and the customer identifier are those
  of the document before; a document that was missing is created with the other counter
  \<open>0\<close>, not subscribed and without a customer identifier. Every other document is
  untouched, and the whole change of the client state is the one step of the transaction
  on the store. For identifiers that are one path segment each, the document is
  \<^verbatim>\<open>artifacts/{appId}/users/{userId}/usage_limits/main_tracker\<close>.
\<close>

theorem incrementUsage_adds_one:
  assumes "db c" and "userId c = Some uid" and "uid \<noteq> []"
    and "getUsageDocRef app_id uid = Inr ref"
    and "- (2 ^ 53) \<le> prior_count (store c ref) k" and "prior_count (store c ref) k < 2 ^ 53"
  shows "\<exists>c' d'. incrementUsage app_id None k c = Inr c' \<and> store c' ref = Some d' \<and>
           get_counter d' k = Some (prior_count (store c ref) k + 1) \<and>
           (\<forall>k'. k' \<noteq> k \<longrightarrow>
              get_counter d' k' = (case store c ref of None \<Rightarrow> Some 0 | Some d \<Rightarrow> get_counter d k')) \<and>
           isSubscribed d' = (case store c ref of None \<Rightarrow> Some False | Some d \<Rightarrow> isSubscribed d) \<and>
           stripeCustomerId d' = (case store c ref of None \<Rightarrow> None | Some d \<Rightarrow> stripeCustomerId d) \<and>
           (\<forall>p. p \<noteq> ref \<longrightarrow> store c' p = store c p) \<and>
           c' = c\<lparr>store := transaction_update ref k (store c)\<rparr> \<and>
           (plain_segment (usageAppId app_id) \<and> plain_segment uid \<longrightarrow>
              ref = [''artifacts'', usageAppId app_id, ''users'', uid, ''usage_limits'', ''main_tracker''])"
proof -
  have pl: "plain_segment (usageAppId app_id) \<and> plain_segment uid \<longrightarrow>
              ref = [''artifacts'', usageAppId app_id, ''users'', uid, ''usage_limits'', ''main_tracker'']"
    using assms(4) by (auto dest: getUsageDocRef_plain)
  define base where "base = (case store c ref of None \<Rightarrow> initialData | Some d \<Rightarrow> d)"
  define d' where "d' = set_counter k (prior_count (store c ref) k + 1) base"
  have upd: "transaction_update ref k (store c) = (store c)(ref \<mapsto> d')"
    using transaction_update_doc [where fs = "store c" and ref = ref and k = k, OF assms(5,6)]
    by (simp add: d'_def base_def)
  have run: "incrementUsage app_id None k c = Inr (c\<lparr>store := transaction_update ref k (store c)\<rparr>)"
    using assms(1-4) by (simp add: incrementUsage_def)
  have g1: "get_counter d' k = Some (prior_count (store c ref) k + 1)"
    by (simp add: d'_def get_set_counter)
  have g2: "\<forall>k'. k' \<noteq> k \<longrightarrow>
              get_counter d' k' = (case store c ref of None \<Rightarrow> Some 0 | Some d \<Rightarrow> get_counter d k')"
    by (simp add: d'_def base_def get_set_counter get_counter_initialData split: option.splits)
  have g3: "isSubscribed d' = (case store c ref of None \<Rightarrow> Some False | Some d \<Rightarrow> isSubscribed d)"
    by (simp add: d'_def base_def set_counter_frame initialData_def split: option.splits)
  have g4: "stripeCustomerId d' = (case store c ref of None \<Rightarrow> None | Some d \<Rightarrow> stripeCustomerId d)"
    by (simp add: d'_def base_def set_counter_frame initialData_def split: option.splits)
  have g5: "store (c\<lparr>store := transaction_update ref k (store c)\<rparr>) ref = Some d'"
    and g6: "\<forall>p. p \<noteq> ref \<longrightarrow> store (c\<lparr>store := transaction_update ref k (store c)\<rparr>) p = store c p"
    by (simp_all add: upd)
  from run g5 g1 g2 g3 g4 g6 pl show ?thesis
    by blast
qed

theorem incrementUsage_adds_one_witness:
  "db example_client \<and> userId example_client = Some ''u1'' \<and> ''u1'' \<noteq> [] \<and>
   getUsageDocRef None ''u1'' = Inr client_path \<and>
   prior_count (store example_client client_path) BidderChecks = 2 \<and>
   incrementUsage None None BidderChecks example_client =
     Inr (example_client\<lparr>store := [client_path \<mapsto>
       \<lparr>initiatorChecks = Some 0, bidderChecks = Some 3, isSubscribed = Some False,
        stripeCustomerId = None\<rparr>]\<rparr>) \<and>
   db fresh_client \<and> userId fresh_client = Some ''u1'' \<and>
   store fresh_client client_path = None \<and>
   prior_count (store fresh_client client_path) InitiatorChecks = 0 \<and>
   incrementUsage None None InitiatorChecks fresh_client =
     Inr (fresh_client\<lparr>store := [client_path \<mapsto>
       \<lparr>initiatorChecks = Some 1, bidderChecks = Some 0, isSubscribed = Some False,
        stripeCustomerId = None\<rparr>]\<rparr>)"
proof -
  have a: "db example_client" "userId example_client = Some ''u1''" "''u1'' \<noteq> []"
    by (simp_all add: example_client_def)
  have b: "db fresh_client" "userId fresh_client = Some ''u1''"
    by (simp_all add: fresh_client_def)
  have r: "getUsageDocRef None ''u1'' = Inr client_path"
    by (simp add: getUsageDocRef_def usageAppId_def doc_web_def segments_def client_path_def)
  have s1: "store example_client client_path = Some example_doc"
    by (simp add: example_client_def)
  have s2: "store fresh_client client_path = None"
    by (simp add: fresh_client_def)
  have p1: "prior_count (store example_client client_path) BidderChecks = 2"
    by (simp add: s1 prior_count_def example_doc_def)
  have p2: "prior_count (store fresh_client client_path) InitiatorChecks = 0"
    by (simp add: s2 prior_count_def)
  have r1: "- (2 ^ 53) \<le> prior_count (store example_client client_path) BidderChecks"
    "prior_count (store example_client client_path) BidderChecks < 2 ^ 53"
    by (simp_all add: p1)
  have r2: "- (2 ^ 53) \<le> prior_count (store fresh_client client_path) InitiatorChecks"
    "prior_count (store fresh_client client_path) InitiatorChecks < 2 ^ 53"
    by (simp_all add: p2)
  have u1: "transaction_update client_path BidderChecks (store example_client) =
              [client_path \<mapsto> \<lparr>initiatorChecks = Some 0, bidderChecks = Some 3,
                                 isSubscribed = Some False, stripeCustomerId = None\<rparr>]"
    by (simp add: transaction_update_doc [where fs = "store example_client" and ref = client_path and k = BidderChecks, OF r1] p1 s1)
       (simp add: example_client_def example_doc_def prior_count_def)
  have u2: "transaction_update client_path InitiatorChecks (store fresh_client) =
              [client_path \<mapsto> \<lparr>initiatorChecks = Some 1, bidderChecks = Some 0,
                                 isSubscribed = Some False, stripeCustomerId = None\<rparr>]"
    by (simp add: transaction_update_doc [where fs = "store fresh_client" and ref = client_path and k = InitiatorChecks, OF r2] p2 s2)
       (simp add: fresh_client_def initialData_def prior_count_def)
  from incrementUsage_adds_one [OF a r r1]
  have i1: "incrementUsage None None BidderChecks example_client =
              Inr (example_client\<lparr>store := [client_path \<mapsto>
                \<lparr>initiatorChecks = Some 0, bidderChecks = Some 3, isSubscribed = Some False,
                 stripeCustomerId = None\<rparr>]\<rparr>)"
    by (auto simp: u1)
  from incrementUsage_adds_one [OF b a(3) r r2]
  have i2: "incrementUsage None None InitiatorChecks fresh_client =
              Inr (fresh_client\<lparr>store := [client_path \<mapsto>
                \<lparr>initiatorChecks = Some 1, bidderChecks = Some 0, isSubscribed = Some False,
                 stripeCustomerId = None\<rparr>]\<rparr>)"
    by (auto simp: u2)
  from a r p1 i1 b s2 p2 i2 show ?thesis
    by blast
qed

text \<open>
  The claim as it is worded, for every record, fails where the double can no longer count:
  a counter at \<open>2 ^ 53\<close> stays at \<open>2 ^ 53\<close>.
\<close>

theorem incrementUsage_saturates:
  "prior_count (store saturated_client client_path) BidderChecks = 9007199254740992 \<and>
   counter_after (incrementUsage None None BidderChecks saturated_client) client_path BidderChecks =
     Some 9007199254740992 \<and>
   counter_after (incrementUsage None None BidderChecks saturated_client) client_path BidderChecks \<noteq>
     Some (prior_count (store saturated_client client_path) BidderChecks + 1)"
proof -
  have r: "getUsageDocRef None ''u1'' = Inr client_path"
    by (simp add: getUsageDocRef_def usageAppId_def doc_web_def segments_def client_path_def)
  have p: "prior_count (store saturated_client client_path) BidderChecks = 9007199254740992"
    by (simp add: saturated_client_def prior_count_def)
  have "counter_after (incrementUsage None None BidderChecks saturated_client) client_path BidderChecks =
          Some (js_plus 9007199254740992 1)"
    by (simp add: incrementUsage_def r transaction_update_def counter_after_def or_zero_def
        saturated_client_def)
  then show ?thesis
    by (simp add: p js_plus_at_2_53)
qed

text \<open>An aborted transaction changes no document and reports the error; without a
  database handle or a user the call does nothing; a refused path makes the call throw.\<close>

lemma incrementUsage_abort:
  assumes "db c" and "userId c = Some uid" and "uid \<noteq> []" and "getUsageDocRef app_id uid = Inr ref"
  shows "incrementUsage app_id (Some e) k c =
           Inr (c\<lparr>errorMessage := Some (''Failed to update usage count. Details: '' @ e)\<rparr>)"
  using assms by (simp add: incrementUsage_def)

lemma incrementUsage_not_ready:
  assumes "\<not> db c \<or> userId c = None \<or> userId c = Some []"
  shows "incrementUsage app_id txn k c = Inr c"
  using assms by (auto simp: incrementUsage_def split: option.splits)

lemma incrementUsage_throws:
  assumes "db c" and "userId c = Some uid" and "uid \<noteq> []" and "getUsageDocRef app_id uid = Inl e"
  shows "incrementUsage app_id txn k c = Inl (Lib e)"
  using assms by (simp add: incrementUsage_def)

lemma getUsageDocRef_empty_app_id: "getUsageDocRef (Some []) uid = Inl Invalid_path"
  by (simp add: getUsageDocRef_def usageAppId_def doc_web_def)

section \<open>Document paths\<close>

text \<open>
  Claim C3. The two path builders do not share the namespace segment: with the ambient
  application id \<^verbatim>\<open>my-app\<close>, the usage document lies under \<^verbatim>\<open>artifacts/my-app\<close> and the
  reports collection under \<^verbatim>\<open>artifacts/__app_id\<close>.
\<close>

theorem app_id_namespaces_at_my_app:
  "getUsageDocRef (Some ''my-app'') ''u1'' =
     Inr [''artifacts'', ''my-app'', ''users'', ''u1'', ''usage_limits'', ''main_tracker''] \<and>
   getReportsCollectionRef (Some ''my-app'') = Inr [''artifacts'', ''__app_id'', ''compliance_reports''] \<and>
   usageAppId (Some ''my-app'') \<noteq> reportsAppId (Some ''my-app'')"
  by (simp add: getUsageDocRef_def getReportsCollectionRef_def usageAppId_def reportsAppId_def
      doc_web_def collection_web_def segments_def)

text \<open>The segments agree exactly when the id is undefined or is the text \<^verbatim>\<open>__app_id\<close>.\<close>

lemma app_id_namespaces_agree_iff:
  "usageAppId app_id = reportsAppId app_id \<longleftrightarrow> app_id = None \<or> app_id = Some ''__app_id''"
  by (cases app_id) (auto simp: usageAppId_def reportsAppId_def)

text \<open>The server's usage document of a user is never the document that the client reads.\<close>

lemma server_and_client_paths_differ:
  assumes "plain_segment uid" and "plain_segment (usageAppId app_id)" and "plain_segment uid'"
  shows "server_usage_doc (Some uid) \<noteq> getUsageDocRef app_id uid'"
  using assms by (simp add: server_usage_doc_plain getUsageDocRef_plain)


section \<open>The webhook\<close>

text \<open>What the example services answer.\<close>

lemma example_verdicts:
  "constructEvent example_env (rawBody checkout_request) (stripe_signature checkout_request)
     (STRIPE_WEBHOOK_SECRET example_server) = Inr example_checkout"
  "constructEvent example_env (rawBody slash_request) (stripe_signature slash_request)
     (STRIPE_WEBHOOK_SECRET example_server) = Inr slash_checkout"
  "constructEvent example_env (rawBody deleted_request) (stripe_signature deleted_request)
     (STRIPE_WEBHOOK_SECRET example_server) = Inr example_deleted"
  "constructEvent example_env (rawBody forged_request) (stripe_signature forged_request)
     (STRIPE_WEBHOOK_SECRET example_server) =
     Inl ''No signatures found matching the expected signature for payload''"
  "set_error example_env p = None"
  "get_error example_env p = None"
  by (simp_all add: example_env_def checkout_request_def slash_request_def deleted_request_def
      forged_request_def example_server_def)

lemma example_server_fields:
  "STRIPE_SECRET_KEY example_server = Some ''sk_test_1''"
  "STRIPE_WEBHOOK_SECRET example_server = Some ''whsec_1''"
  "admin_apps example_server = 1"
  "admin_firestore example_server = [client_path \<mapsto> example_doc, server_path \<mapsto> example_doc]"
  by (simp_all add: example_server_def)

lemma example_paths:
  "server_usage_doc (Some ''u1'') = Inr server_path"
  "server_usage_doc (Some ''u2'') = Inr [''users'', ''u2'', ''usage_limits'', ''main_tracker'']"
  "server_usage_doc (Some ''a/b'') = Inl Invalid_path"
  "server_usage_doc (Some []) = Inl Invalid_path"
  "server_path \<noteq> client_path"
  by (simp_all add: server_usage_doc_def segments_def server_path_def client_path_def)

lemma webhook_example_checkout:
  "webhook example_env checkout_request example_server = (Reply \<lparr>status = 200, body = Empty\<rparr>, linked_server)"
proof -
  have "admin_firestore example_server server_path = Some example_doc"
    by (simp add: example_server_fields)
  then show ?thesis
    by (simp add: webhook_def Stripe_cases falsy_str_def example_server_fields(1,3) example_verdicts
        example_checkout_def example_paths Let_def)
       (simp add: linked_server_def example_server_def set_merge_def fun_upd_twist example_paths)
qed

text \<open>
  Claim C4. A verified \<^verbatim>\<open>checkout.session.completed\<close> event delivered twice leaves the
  server in the state that one delivery reaches. When the Stripe key is set, the event
  names a user by an identifier of one path segment, the store is initialised and takes
  the write, that state has the document \<^verbatim>\<open>users/{userId}/usage_limits/main_tracker\<close>
  subscribed and linked to the event's customer.
\<close>

theorem webhook_replay_idempotent:
  assumes "constructEvent env (rawBody req) (stripe_signature req) (STRIPE_WEBHOOK_SECRET s) = Inr ev"
    and "event_type ev = ''checkout.session.completed''"
  shows "snd (webhook env req (snd (webhook env req s))) = snd (webhook env req s) \<and>
         (\<forall>uid key. STRIPE_SECRET_KEY s = Some key \<and> key \<noteq> [] \<and>
            client_reference_id (data_object ev) = Val uid \<and> plain_segment uid \<and> admin_apps s \<noteq> 0 \<and>
            set_error env [''users'', uid, ''usage_limits'', ''main_tracker''] = None \<longrightarrow>
            (\<exists>d. admin_firestore (snd (webhook env req s))
                    [''users'', uid, ''usage_limits'', ''main_tracker''] = Some d \<and>
                 isSubscribed d = Some True \<and>
                 stripeCustomerId d = Some (customer (data_object ev))))"
proof
  show "snd (webhook env req (snd (webhook env req s))) = snd (webhook env req s)"
    by (rule webhook_idempotent)
next
  show "\<forall>uid key. STRIPE_SECRET_KEY s = Some key \<and> key \<noteq> [] \<and>
            client_reference_id (data_object ev) = Val uid \<and> plain_segment uid \<and> admin_apps s \<noteq> 0 \<and>
            set_error env [''users'', uid, ''usage_limits'', ''main_tracker''] = None \<longrightarrow>
            (\<exists>d. admin_firestore (snd (webhook env req s))
                    [''users'', uid, ''usage_limits'', ''main_tracker''] = Some d \<and>
                 isSubscribed d = Some True \<and>
                 stripeCustomerId d = Some (customer (data_object ev)))"
  proof (intro allI impI, elim conjE)
    fix uid key
    assume k: "STRIPE_SECRET_KEY s = Some key" "key \<noteq> []"
      and u: "client_reference_id (data_object ev) = Val uid" "plain_segment uid"
      and a: "admin_apps s \<noteq> 0"
      and w: "set_error env [''users'', uid, ''usage_limits'', ''main_tracker''] = None"
    from k have nk: "\<not> falsy_str (STRIPE_SECRET_KEY s)"
      by (simp add: falsy_str_def)
    from u(2) have ne: "uid \<noteq> []"
      by (simp add: plain_segment_def)
    note webhook_checkout_writes [OF nk assms u(1) ne a server_usage_doc_plain [OF u(2)] w]
    then show "\<exists>d. admin_firestore (snd (webhook env req s))
                    [''users'', uid, ''usage_limits'', ''main_tracker''] = Some d \<and>
                 isSubscribed d = Some True \<and>
                 stripeCustomerId d = Some (customer (data_object ev))"
      by (simp add: set_merge_fields)
  qed
qed

theorem webhook_replay_idempotent_witness:
  "constructEvent example_env (rawBody checkout_request) (stripe_signature checkout_request)
     (STRIPE_WEBHOOK_SECRET example_server) = Inr example_checkout \<and>
   event_type example_checkout = ''checkout.session.completed'' \<and>
   snd (webhook example_env checkout_request (snd (webhook example_env checkout_request example_server))) =
     snd (webhook example_env checkout_request example_server) \<and>
   snd (webhook example_env checkout_request example_server) = linked_server \<and>
   admin_firestore linked_server [''users'', ''u1'', ''usage_limits'', ''main_tracker''] =
     Some \<lparr>initiatorChecks = Some 0, bidderChecks = Some 2, isSubscribed = Some True,
           stripeCustomerId = Some (Val ''cus_123'')\<rparr>"
proof -
  have t: "event_type example_checkout = ''checkout.session.completed''"
    by (simp add: example_checkout_def)
  have l: "admin_firestore linked_server [''users'', ''u1'', ''usage_limits'', ''main_tracker''] =
             Some \<lparr>initiatorChecks = Some 0, bidderChecks = Some 2, isSubscribed = Some True,
                   stripeCustomerId = Some (Val ''cus_123'')\<rparr>"
    by (simp add: linked_server_def server_path_def client_path_def example_doc_def)
  from webhook_replay_idempotent
    [where env = example_env and req = checkout_request and s = example_server,
     OF example_verdicts(1) t]
    example_verdicts(1) t l webhook_example_checkout show ?thesis
    by simp
qed











section \<open>The customer portal\<close>




text \<open>A customer id that is \<^verbatim>\<open>null\<close> or empty is read as missing; a provider error and a
  rejected lookup give \<open>500\<close>.\<close>

lemma create_portal_session_falsy_id:
  assumes "STRIPE_SECRET_KEY s = Some key" and "key \<noteq> []" and "admin_apps s \<noteq> 0"
    and "server_usage_doc user_id = Inr p" and "get_error env p = None"
    and "admin_firestore s p = Some d"
    and "stripeCustomerId d = Some Null \<or> stripeCustomerId d = Some (Val [])"
  shows "status (reply (create_portal_session env user_id s)) = 404"
    and "calls (create_portal_session env user_id s) = [Firestore_get p]"
  using assms by (auto simp: create_portal_session_def falsy_str_def)

lemma create_portal_session_errors:
  assumes "STRIPE_SECRET_KEY s = Some key" and "key \<noteq> []" and "admin_apps s \<noteq> 0"
    and "server_usage_doc user_id = Inr p"
  shows "get_error env p = Some m \<Longrightarrow>
           reply (create_portal_session env user_id s) = \<lparr>status = 500, body = Json_error (Lit m)\<rparr>"
    and "get_error env p = None \<Longrightarrow> admin_firestore s p = Some d \<Longrightarrow>
         stripeCustomerId d = Some (Val cid) \<Longrightarrow> cid \<noteq> [] \<Longrightarrow> create_session env cid return_url = Inl e \<Longrightarrow>
           reply (create_portal_session env user_id s) = \<lparr>status = 500, body = Json_error (Lit e)\<rparr>"
  using assms by (auto simp: create_portal_session_def falsy_str_def)

section \<open>The metered action\<close>

text \<open>
  Claim C8. When the gate blocks on the client's usage record, \<open>handleAnalyze\<close> stops at
  the paywall check, which comes before anything else: the paywall is opened, an error
  message is set, the audit does not run and no counter is incremented, so the document
  store and the usage record are what they were.
\<close>

theorem handleAnalyze_blocked:
  assumes "isTrialOver (usageLimits c)"
  shows "\<exists>c'. handleAnalyze app_id txn audit_ok msg c = Inr c' \<and>
           store c' = store c \<and> usageLimits c' = usageLimits c \<and> isPaywallOpen c' \<and>
           c' = c\<lparr>isPaywallOpen := True, errorMessage := Some (''Trial'' @ msg)\<rparr>"
  using assms by (simp add: handleAnalyze_def)

theorem handleAnalyze_blocked_witness:
  "isTrialOver (usageLimits blocked_client) \<and>
   handleAnalyze None None True '' limit reached'' blocked_client =
     Inr (blocked_client\<lparr>isPaywallOpen := True, errorMessage := Some ''Trial limit reached''\<rparr>) \<and>
   map_option bidderChecks (store blocked_client client_path) = Some (Some 3) \<and>
   counter_after (handleAnalyze None None True '' limit reached'' blocked_client) client_path BidderChecks =
     Some 3"
proof -
  have b: "isTrialOver (usageLimits blocked_client)"
    by (simp add: blocked_client_def example_doc_def isTrialOver_def js_ge_def truthy_bool_def
        FREE_TRIAL_LIMIT_def)
  have s: "map_option bidderChecks (store blocked_client client_path) = Some (Some 3)"
    by (simp add: blocked_client_def)
  from handleAnalyze_blocked [OF b, of None None True "'' limit reached''"]
  have h: "handleAnalyze None None True '' limit reached'' blocked_client =
     Inr (blocked_client\<lparr>isPaywallOpen := True, errorMessage := Some ''Trial limit reached''\<rparr>)"
    by auto
  have "counter_after (handleAnalyze None None True '' limit reached'' blocked_client) client_path BidderChecks =
     Some 3"
    by (simp add: h counter_after_def) (simp add: blocked_client_def)
  with b s h show ?thesis
    by blast
qed

text \<open>
  The end-to-end run of the specification: with two checks used the gate allows, the
  audit raises the counter to three, the listener copies it, and the next attempt is
  blocked and changes nothing in the store.
\<close>

lemma end_to_end_audit:
  "\<not> isTrialOver (usageLimits example_client)"
  "handleAnalyze None None True m example_client =
     Inr (example_client\<lparr>store := [client_path \<mapsto> example_doc\<lparr>bidderChecks := Some 3\<rparr>]\<rparr>)"
  "onSnapshot_usage None (example_client\<lparr>store := [client_path \<mapsto> example_doc\<lparr>bidderChecks := Some 3\<rparr>]\<rparr>) =
     Inr (example_client\<lparr>store := [client_path \<mapsto> example_doc\<lparr>bidderChecks := Some 3\<rparr>],
                          usageLimits := example_doc\<lparr>bidderChecks := Some 3\<rparr>\<rparr>)"
  "handleAnalyze None None True m
     (example_client\<lparr>store := [client_path \<mapsto> example_doc\<lparr>bidderChecks := Some 3\<rparr>],
                      usageLimits := example_doc\<lparr>bidderChecks := Some 3\<rparr>\<rparr>) =
     Inr (example_client\<lparr>store := [client_path \<mapsto> example_doc\<lparr>bidderChecks := Some 3\<rparr>],
                          usageLimits := example_doc\<lparr>bidderChecks := Some 3\<rparr>,
                          isPaywallOpen := True, errorMessage := Some (''Trial'' @ m)\<rparr>)"
proof -
  have r: "getUsageDocRef None ''u1'' = Inr client_path"
    by (simp add: getUsageDocRef_def usageAppId_def doc_web_def segments_def client_path_def)
  have g: "isTrialOver (example_doc\<lparr>bidderChecks := Some n\<rparr>) \<longleftrightarrow> 3 \<le> n" for n
    by (simp add: example_doc_def isTrialOver_def js_ge_def truthy_bool_def FREE_TRIAL_LIMIT_def)
  have j: "js_plus 2 1 = 3"
    by (rule js_plus_exact [of 2 1, simplified])
  show "\<not> isTrialOver (usageLimits example_client)"
    using g [of 2] by (simp add: example_client_def example_doc_def)
  have u: "usageLimits example_client = example_doc\<lparr>bidderChecks := Some 2\<rparr>"
    by (simp add: example_client_def example_doc_def)
  show "handleAnalyze None None True m example_client =
     Inr (example_client\<lparr>store := [client_path \<mapsto> example_doc\<lparr>bidderChecks := Some 3\<rparr>]\<rparr>)"
    by (simp add: handleAnalyze_def isTrialOver_def js_ge_def truthy_bool_def FREE_TRIAL_LIMIT_def
        incrementUsage_def r transaction_update_def example_client_def example_doc_def or_zero_def j)
  show "onSnapshot_usage None (example_client\<lparr>store := [client_path \<mapsto> example_doc\<lparr>bidderChecks := Some 3\<rparr>]\<rparr>) =
     Inr (example_client\<lparr>store := [client_path \<mapsto> example_doc\<lparr>bidderChecks := Some 3\<rparr>],
                          usageLimits := example_doc\<lparr>bidderChecks := Some 3\<rparr>\<rparr>)"
    by (simp add: onSnapshot_usage_def r example_client_def example_doc_def or_false_def)
  show "handleAnalyze None None True m
     (example_client\<lparr>store := [client_path \<mapsto> example_doc\<lparr>bidderChecks := Some 3\<rparr>],
                      usageLimits := example_doc\<lparr>bidderChecks := Some 3\<rparr>\<rparr>) =
     Inr (example_client\<lparr>store := [client_path \<mapsto> example_doc\<lparr>bidderChecks := Some 3\<rparr>],
                          usageLimits := example_doc\<lparr>bidderChecks := Some 3\<rparr>,
                          isPaywallOpen := True, errorMessage := Some (''Trial'' @ m)\<rparr>)"
    by (simp add: handleAnalyze_def g)
qed

section \<open>Facts about the percentage\<close>




lemma getCompliancePercentage_nonempty:
  assumes "findings r = Some fs" and "fs \<noteq> []"
  shows "getCompliancePercentage r =
           parseFloat (toFixed1 (js_mul (js_div (double_sum fs) (of_nat (length fs))) 100))"
  using assms by (simp add: getCompliancePercentage_def double_sum_def or_zero_eq)

text \<open>Scores of the data model add up without rounding.\<close>

lemma foldl_scores_exact:
  assumes "data_model_scores fs" and "0 \<le> k" and "k + 2 * int (length fs) \<le> 2 ^ 53"
  shows "foldl (\<lambda>sum item. js_add sum (case complianceScore item of None \<Rightarrow> 0 | Some x \<Rightarrow> x))
           (of_int k / 2) fs =
         of_int k / 2 + (\<Sum>f\<leftarrow>fs. case complianceScore f of None \<Rightarrow> 0 | Some x \<Rightarrow> x)"
  using assms
proof (induction fs arbitrary: k)
  case Nil
  then show ?case by simp
next
  case (Cons f fs)
  define x :: rat where "x = (case complianceScore f of None \<Rightarrow> 0 | Some x \<Rightarrow> x)"
  from Cons.prems(1) have "complianceScore f \<in> {None, Some 0, Some (1 / 2), Some 1}"
    by (simp add: data_model_scores_def)
  then obtain t :: int where t: "0 \<le> t" "t \<le> 2" "x = of_int t / 2"
    unfolding x_def
    by (elim insertE emptyE) (auto intro: that [of 0] that [of 1] that [of 2])
  have rest: "data_model_scores fs"
    using Cons.prems(1) by (simp add: data_model_scores_def)
  have sum: "of_int k / 2 + x = of_int (k + t) / 2"
    by (simp add: t(3) add_divide_distrib)
  have "0 \<le> k + t" and le: "k + t \<le> 2 ^ 53" and "k + t + 2 * int (length fs) \<le> 2 ^ 53"
    using Cons.prems(2,3) t(1,2) by simp_all
  have "js_add (of_int k / 2) x = round_double (of_int (k + t) / 2)"
    by (simp only: js_add_def sum)
  also have "\<dots> = of_int (k + t) / 2"
    by (rule round_double_half) fact+
  finally have step: "js_add (of_int k / 2) x = of_int (k + t) / 2" .
  let ?F = "\<lambda>sum item. js_add sum (case complianceScore item of None \<Rightarrow> 0 | Some (x::rat) \<Rightarrow> x)"
  let ?S = "\<lambda>fs. \<Sum>f\<leftarrow>fs. case complianceScore f of None \<Rightarrow> 0 | Some (x::rat) \<Rightarrow> x"
  have ih: "foldl ?F (of_int (k + t) / 2) fs = of_int (k + t) / 2 + ?S fs"
    by (rule Cons.IH) fact+
  have "foldl ?F (of_int k / 2) (f # fs) = foldl ?F (js_add (of_int k / 2) x) fs"
    by (simp add: x_def)
  also have "\<dots> = foldl ?F (of_int (k + t) / 2) fs"
    by (simp only: step)
  also have "\<dots> = of_int (k + t) / 2 + ?S fs"
    by (rule ih)
  also have "\<dots> = of_int k / 2 + (x + ?S fs)"
    by (simp only: sum [symmetric] add.assoc)
  also have "x + ?S fs = ?S (f # fs)"
    by (simp add: x_def)
  finally show ?case .
qed

lemma double_sum_exact:
  assumes "data_model_scores fs" and "length fs \<le> 2 ^ 52"
  shows "double_sum fs = (\<Sum>f\<leftarrow>fs. case complianceScore f of None \<Rightarrow> 0 | Some x \<Rightarrow> x)"
proof -
  have "int (length fs) \<le> 2 ^ 52"
    using assms(2) by (metis of_nat_le_iff of_nat_numeral of_nat_power)
  then have "0 + 2 * int (length fs) \<le> 2 ^ 53"
    by simp
  from foldl_scores_exact [OF assms(1) order_refl this] show ?thesis
    by (simp add: double_sum_def)
qed



section \<open>The compliance percentage\<close>





text \<open>
  Where the exact quotient lies halfway between two tenths the doubles decide: eleven
  findings met, one half met and twenty-eight not met give \<open>28.75\<close> exactly, the double
  product lies just below it, and the result is \<open>28.7\<close>.
\<close>

lemma forty_percentage:
  "getCompliancePercentage \<lparr>findings = Some forty_findings\<rparr> = parseFloat (287 / 10)"
  "average_percentage forty_findings = 115 / 4"
proof -
  have m: "data_model_scores forty_findings" and l: "length forty_findings = 40"
    by (auto simp: data_model_scores_def forty_findings_def)
  have l52: "length forty_findings \<le> 2 ^ 52"
    by (simp add: l)
  have s: "(\<Sum>f\<leftarrow>forty_findings. case complianceScore f of None \<Rightarrow> 0 | Some x \<Rightarrow> x) = (23 / 2 :: rat)"
    by (simp add: forty_findings_def sum_list_replicate)
  have ds: "double_sum forty_findings = 23 / 2"
    using double_sum_exact [OF m l52] by (simp only: s)
  have ne: "forty_findings \<noteq> []"
    using l by auto
  have "getCompliancePercentage \<lparr>findings = Some forty_findings\<rparr> =
          parseFloat (toFixed1 (js_mul (js_div (double_sum forty_findings)
            (of_nat (length forty_findings))) 100))"
    by (rule getCompliancePercentage_nonempty) (simp_all add: ne)
  also have "\<dots> = parseFloat (toFixed1 (js_mul (js_div (23 / 2) 40) 100))"
    by (simp only: ds l of_nat_numeral)
  also have "\<dots> = parseFloat (287 / 10)"
    by code_simp
  finally show "getCompliancePercentage \<lparr>findings = Some forty_findings\<rparr> = parseFloat (287 / 10)" .
  show "average_percentage forty_findings = 115 / 4"
    by (simp add: average_percentage_def s l)
qed




end
